theory Spec2Isabelle
  imports Main "HOL-Library.Sublist"
begin

section \<open>Go strings, runes and the library functions \<open>sanitizeSlug\<close> calls\<close>

text \<open>
  A Go string is a sequence of bytes: \<^typ>\<open>string\<close>. A rune is a Unicode code point, in
  Go an \<open>int32\<close>; every rune below comes from decoding or from a constant, so no
  arithmetic on runes can overflow and \<^typ>\<open>int\<close> stands for it.
  The functions of this section belong to Go's standard library (packages \<open>unicode/utf8\<close>,
  \<open>unicode\<close> and \<open>strings\<close>), not to the repository; they are written out as far as
  \<open>claudetool/subagent.go\<close> uses them.
\<close>

type_synonym rune = int

abbreviation byte :: "char \<Rightarrow> int" where
  "byte c \<equiv> of_char c"

definition RuneError :: rune where
  "RuneError = 0xFFFD"

definition is_cont :: "int \<Rightarrow> bool" where
  "is_cont b \<longleftrightarrow> 0x80 \<le> b \<and> b \<le> 0xBF"

text \<open>
  \<open>utf8.DecodeRuneInString\<close> on the bytes of a string: the first rune and its width. A
  byte that starts no well-formed sequence (a stray continuation byte, an overlong or
  surrogate encoding, a value above U+10FFFF, a sequence cut short) is \<open>RuneError\<close> of
  width 1.
\<close>

fun DecodeRune :: "int list \<Rightarrow> rune \<times> nat" where
  "DecodeRune [] = (RuneError, 0)"
| "DecodeRune (b0 # bs) =
     (if b0 < 0x80 then (b0, 1)
      else if 0xC2 \<le> b0 \<and> b0 \<le> 0xDF then
        (case bs of
           b1 # _ \<Rightarrow>
             if is_cont b1 then ((b0 mod 0x20) * 0x40 + b1 mod 0x40, 2) else (RuneError, 1)
         | _ \<Rightarrow> (RuneError, 1))
      else if 0xE0 \<le> b0 \<and> b0 \<le> 0xEF then
        (case bs of
           b1 # b2 # _ \<Rightarrow>
             if (if b0 = 0xE0 then 0xA0 else 0x80) \<le> b1
                \<and> b1 \<le> (if b0 = 0xED then 0x9F else 0xBF) \<and> is_cont b2
             then ((b0 mod 0x10) * 0x1000 + (b1 mod 0x40) * 0x40 + b2 mod 0x40, 3)
             else (RuneError, 1)
         | _ \<Rightarrow> (RuneError, 1))
      else if 0xF0 \<le> b0 \<and> b0 \<le> 0xF4 then
        (case bs of
           b1 # b2 # b3 # _ \<Rightarrow>
             if (if b0 = 0xF0 then 0x90 else 0x80) \<le> b1
                \<and> b1 \<le> (if b0 = 0xF4 then 0x8F else 0xBF) \<and> is_cont b2 \<and> is_cont b3
             then ((b0 mod 0x08) * 0x40000 + (b1 mod 0x40) * 0x1000
                   + (b2 mod 0x40) * 0x40 + b3 mod 0x40, 4)
             else (RuneError, 1)
         | _ \<Rightarrow> (RuneError, 1))
      else (RuneError, 1))"

text \<open>The runes that \<open>for _, r := range s\<close> yields, in order.\<close>

function decodeRunes :: "string \<Rightarrow> rune list" where
  "decodeRunes [] = []"
| "decodeRunes (c # cs) =
     (case DecodeRune (map byte (c # cs)) of
        (r, n) \<Rightarrow> r # decodeRunes (drop n (c # cs)))"
  by pat_completeness auto
termination
proof (relation "measure length")
  show "wf (measure length)" by simp
next
  fix c :: char and cs :: string and r :: rune and n :: nat
  assume "(r, n) = DecodeRune (map byte (c # cs))"
  then have "DecodeRune (byte c # map byte cs) = (r, n)" by simp
  then have "0 < n" by (auto split: if_splits list.splits)
  then show "(drop n (c # cs), c # cs) \<in> measure length" by simp
qed

text \<open>
  \<open>unicode.ToLower\<close>. On ASCII it is written out as in the library; above ASCII it reads
  the Unicode case tables, which are data of the Go distribution: they are the parameter
  \<open>tbl\<close>, and nothing is assumed about them.
\<close>

definition unicode_ToLower :: "(rune \<Rightarrow> rune) \<Rightarrow> rune \<Rightarrow> rune" where
  "unicode_ToLower tbl r =
     (if r \<le> 0x7F then (if byte CHR ''A'' \<le> r \<and> r \<le> byte CHR ''Z'' then r + 0x20 else r)
      else tbl r)"

text \<open>\<open>strings.Contains(s, substr)\<close>.\<close>

fun Contains :: "string \<Rightarrow> string \<Rightarrow> bool" where
  "Contains [] substr = (substr = [])"
| "Contains (c # cs) substr = (prefix substr (c # cs) \<or> Contains cs substr)"

text \<open>
  \<open>strings.ReplaceAll(s, "--", "-")\<close>: the non-overlapping occurrences of \<open>"--"\<close>, found
  from the left, each become \<open>"-"\<close>.
\<close>

fun ReplaceAll_hyphens :: "string \<Rightarrow> string" where
  "ReplaceAll_hyphens (c # d # cs) =
     (if c = CHR ''-'' \<and> d = CHR ''-'' then CHR ''-'' # ReplaceAll_hyphens cs
      else c # ReplaceAll_hyphens (d # cs))"
| "ReplaceAll_hyphens cs = cs"

text \<open>
  \<open>strings.Trim(s, "-")\<close>. For a cutset of one ASCII byte the library computes
  \<open>trimLeftByte(trimRightByte(s, c), c)\<close>: the trailing hyphens go first.
\<close>

definition trimRightByte :: "string \<Rightarrow> char \<Rightarrow> string" where
  "trimRightByte s c = rev (dropWhile (\<lambda>x. x = c) (rev s))"

definition trimLeftByte :: "string \<Rightarrow> char \<Rightarrow> string" where
  "trimLeftByte s c = dropWhile (\<lambda>x. x = c) s"

definition Trim_hyphens :: "string \<Rightarrow> string" where
  "Trim_hyphens s = trimLeftByte (trimRightByte s CHR ''-'') CHR ''-''"

section \<open>\<open>sanitizeSlug\<close>\<close>

text \<open>
  The first loop of \<open>sanitizeSlug\<close>, over the runes of \<open>strings.ToLower(slug)\<close>: a rune in
  \<open>a-z\<close>, \<open>0-9\<close> or a hyphen is written, a space or an underscore writes a hyphen, any
  other rune writes nothing.
\<close>

fun keepRunes :: "rune list \<Rightarrow> string" where
  "keepRunes [] = []"
| "keepRunes (r # rs) =
     (if (byte CHR ''a'' \<le> r \<and> r \<le> byte CHR ''z'')
         \<or> (byte CHR ''0'' \<le> r \<and> r \<le> byte CHR ''9'') \<or> r = byte CHR ''-''
      then char_of r # keepRunes rs
      else if r = byte CHR '' '' \<or> r = byte CHR ''_'' then CHR ''-'' # keepRunes rs
      else keepRunes rs)"

text \<open>The second loop: \<open>for strings.Contains(s, "--") { s = strings.ReplaceAll(s, "--", "-") }\<close>.\<close>

function collapseHyphens :: "string \<Rightarrow> string" where
  "collapseHyphens s =
     (if Contains s ''--'' then collapseHyphens (ReplaceAll_hyphens s) else s)"
  by pat_completeness auto
termination
proof (relation "measure length")
  show "wf (measure length)" by simp
next
  fix s :: string
  assume c: "Contains s ''--''"
  have "(Contains t ''--'' \<longrightarrow> length (ReplaceAll_hyphens t) < length t)
      \<and> length (ReplaceAll_hyphens t) \<le> length t" for t
    by (induction t rule: ReplaceAll_hyphens.induct) (auto simp: less_Suc_eq_le)
  with c show "(ReplaceAll_hyphens s, s) \<in> measure length" by simp
qed

declare collapseHyphens.simps [simp del]

definition sanitizeSlug :: "(rune \<Rightarrow> rune) \<Rightarrow> string \<Rightarrow> string" where
  "sanitizeSlug tbl slug =
     Trim_hyphens (collapseHyphens (keepRunes (map (unicode_ToLower tbl) (decodeRunes slug))))"

text \<open>The alphabet of a slug: \<open>a-z\<close>, \<open>0-9\<close> and the hyphen.\<close>

definition slug_char :: "char \<Rightarrow> bool" where
  "slug_char c \<longleftrightarrow>
     (byte CHR ''a'' \<le> byte c \<and> byte c \<le> byte CHR ''z'')
     \<or> (byte CHR ''0'' \<le> byte c \<and> byte c \<le> byte CHR ''9'') \<or> c = CHR ''-''"

subsection \<open>The algorithm as the specification words it\<close>

text \<open>
  The specification gives five steps, each on the whole string and in this order:
  lowercase; map space and underscore to a hyphen; drop every character outside
  \<open>a-z\<close>, \<open>0-9\<close>, hyphen; collapse each run of hyphens to one hyphen; trim the leading and
  the trailing hyphens. The definitions below follow these words, one per step, and are
  compared with \<open>sanitizeSlug\<close> further down.
\<close>

definition spec_lowercase :: "(rune \<Rightarrow> rune) \<Rightarrow> rune list \<Rightarrow> rune list" where
  "spec_lowercase tbl rs = map (unicode_ToLower tbl) rs"

definition spec_map_separators :: "rune list \<Rightarrow> rune list" where
  "spec_map_separators rs =
     map (\<lambda>r. if r = byte CHR '' '' \<or> r = byte CHR ''_'' then byte CHR ''-'' else r) rs"

definition spec_drop_others :: "rune list \<Rightarrow> rune list" where
  "spec_drop_others rs =
     filter (\<lambda>r. (byte CHR ''a'' \<le> r \<and> r \<le> byte CHR ''z'')
                 \<or> (byte CHR ''0'' \<le> r \<and> r \<le> byte CHR ''9'') \<or> r = byte CHR ''-'') rs"

fun spec_collapse_runs :: "string \<Rightarrow> string" where
  "spec_collapse_runs (c # d # cs) =
     (if c = CHR ''-'' \<and> d = CHR ''-'' then spec_collapse_runs (d # cs)
      else c # spec_collapse_runs (d # cs))"
| "spec_collapse_runs cs = cs"

definition spec_trim :: "string \<Rightarrow> string" where
  "spec_trim s =
     rev (dropWhile (\<lambda>x. x = CHR ''-'') (rev (dropWhile (\<lambda>x. x = CHR ''-'') s)))"

definition spec_sanitize :: "(rune \<Rightarrow> rune) \<Rightarrow> string \<Rightarrow> string" where
  "spec_sanitize tbl s =
     spec_trim (spec_collapse_runs (map char_of
       (spec_drop_others (spec_map_separators (spec_lowercase tbl (decodeRunes s))))))"

section \<open>The subagent tool\<close>

subsection \<open>Data\<close>

record AvailableModel =
  ID :: string
  DisplayName :: string

text \<open>
  \<open>subagentInput\<close>: \<open>TimeoutSeconds\<close> is a Go \<open>int\<close>; it is only compared with \<open>0\<close> and
  \<open>300\<close> before it is clamped, so \<^typ>\<open>int\<close> stands for it. \<open>Wait\<close> is a \<open>*bool\<close>, \<open>nil\<close>
  when the field is absent. An absent \<open>timeout_seconds\<close> or \<open>model\<close> decodes to \<open>0\<close> or
  the empty string.
\<close>

record subagentInput =
  Slug :: string
  Prompt :: string
  TimeoutSeconds :: int
  Wait :: "bool option"
  Model :: string

record SubagentDisplayData =
  Slug :: string
  ConversationID :: string

text \<open>
  Modelled from the spec: the type \<open>llm.ToolOut\<close> and the constructors
  \<open>llm.ErrorfToolOut\<close> and \<open>llm.TextContent\<close> of package \<open>llm\<close>, which is not among the
  sources. The specification says that a tool output carries \<open>LLMContent\<close> (what the
  model sees), \<open>Display\<close> (what the UI renders) and/or an \<open>Error\<close>, and that a failure is
  returned as a tool-level error with its message. The content is the list of its text
  blocks, an error is its message, and \<open>ErrorfToolOut\<close> takes the message already
  formatted.
\<close>

record ToolOut =
  LLMContent :: "string list"
  Display :: "SubagentDisplayData option"
  Error :: "string option"

text \<open>
  Modelled from the spec: \<open>llm.ErrorfToolOut\<close> (package \<open>llm\<close> is missing), the tool output
  of a failure: only the error, with its message.
\<close>

definition ErrorfToolOut :: "string \<Rightarrow> ToolOut" where
  "ErrorfToolOut msg = \<lparr>LLMContent = [], Display = None, Error = Some msg\<rparr>"

text \<open>
  Modelled from the spec: \<open>llm.TextContent\<close> (package \<open>llm\<close> is missing), the content made
  of one text block.
\<close>

definition TextContent :: "string \<Rightarrow> string list" where
  "TextContent text = [text]"

text \<open>
  The two collaborators are interfaces (\<open>SubagentDB\<close>, \<open>SubagentRunner\<close>) whose
  implementations live outside this file and have effects. Each is a function on a state
  \<open>'w\<close> of everything outside the tool (the directory's storage, the child
  conversations, the parent's working directory): it takes the arguments of the Go
  method (the context apart, which \<open>Run\<close> hands on unchanged) and returns the error text or
  the results, with the new state. \<open>WorkingDir\<close> is a pointer to a mutable cell; what
  \<open>WorkingDir.Get()\<close> returns is read from the state. A \<^typ>\<open>int\<close> timeout is a
  \<open>time.Duration\<close>, in nanoseconds. The three fields are set in every tool of the model;
  a tool built with a nil \<open>DB\<close>, \<open>Runner\<close> or \<open>WorkingDir\<close> would panic where \<open>Run\<close>
  first calls it, after all validation, and is not described here.
\<close>

record 'w SubagentTool =
  DB :: "string \<Rightarrow> string \<Rightarrow> string \<Rightarrow> 'w \<Rightarrow> (string + string \<times> string) \<times> 'w"
  ParentConversationID :: string
  WorkingDir :: "'w \<Rightarrow> string"
  Runner :: "string \<Rightarrow> string \<Rightarrow> bool \<Rightarrow> int \<Rightarrow> string \<Rightarrow> 'w \<Rightarrow> (string + string) \<times> 'w"
  ModelID :: string
  AvailableModels :: "AvailableModel list"

text \<open>
  A call that \<open>Run\<close> makes to a collaborator, with its arguments. \<open>Run\<close> returns the list
  of the calls it has made, in order, beside its output, so that what reaches the
  directory and the runner can be stated.
\<close>

datatype call =
    GetOrCreateSubagentConversation string string string
  | RunSubagent string string bool int string

abbreviation toolOut :: "ToolOut \<times> call list \<times> 'w \<Rightarrow> ToolOut" where
  "toolOut r \<equiv> fst r"

abbreviation callsMade :: "ToolOut \<times> call list \<times> 'w \<Rightarrow> call list" where
  "callsMade r \<equiv> fst (snd r)"

abbreviation worldAfter :: "ToolOut \<times> call list \<times> 'w \<Rightarrow> 'w" where
  "worldAfter r \<equiv> snd (snd r)"

text \<open>\<open>strings.Join(elems, sep)\<close>.\<close>

fun Join :: "string list \<Rightarrow> string \<Rightarrow> string" where
  "Join [] sep = []"
| "Join [x] sep = x"
| "Join (x # y # ys) sep = x @ sep @ Join (y # ys) sep"

subsection \<open>\<open>subagentDescription\<close>\<close>

definition description_base :: string where
  "description_base =
     ''Spawn or interact with a subagent conversation.\<newline>\<newline>'' @
     ''Subagents are independent conversations that can work on subtasks in parallel.\<newline>'' @
     ''Use subagents for:\<newline>'' @
     ''- Long-running tasks that you want to delegate\<newline>'' @
     ''- Token-intensive tasks that produce lots of output, little of which is needed\<newline>'' @
     ''- Parallel exploration of different approaches\<newline>'' @
     ''- Breaking down complex problems into independent pieces\<newline>\<newline>'' @
     ''Each subagent has its own slug identifier within this conversation.\<newline>'' @
     ''You can send messages to existing subagents by using the same slug.\<newline>'' @
     ''The tool returns the subagent's last response, or a status if the timeout is reached.''"

definition models_header :: string where
  \<open>models_header =
     ''\<newline>\<newline>Available models (use the "model" parameter to override the default):''\<close>

text \<open>The body of the loop over the models: the text one model adds to the description.\<close>

definition model_line :: "AvailableModel \<Rightarrow> string" where
  "model_line m =
     (if DisplayName m \<noteq> '''' \<and> DisplayName m \<noteq> ID m
      then ''\<newline>- '' @ ID m @ '' ('' @ DisplayName m @ '')''
      else ''\<newline>- '' @ ID m)"

definition subagentDescription :: "'w SubagentTool \<Rightarrow> string" where
  "subagentDescription s =
     (if length (AvailableModels s) > 0
      then foldl (\<lambda>base m. base @ model_line m) (description_base @ models_header)
             (AvailableModels s)
      else description_base)"

subsection \<open>\<open>subagentInputSchema\<close>\<close>

text \<open>
  The format string of the schema, before and after its \<open>%s\<close>. The verb \<open>%q\<close> is
  \<open>strconv.Quote\<close> of the standard library, whose escapes depend on Unicode tables: it is
  the parameter \<open>quote\<close>.
\<close>

definition schema_head :: string where
  \<open>schema_head =
     ''{\<newline>'' @
     ''  "type": "object",\<newline>'' @
     ''  "required": ["slug", "prompt"],\<newline>'' @
     ''  "properties": {\<newline>'' @
     ''    "slug": {\<newline>'' @
     ''      "type": "string",\<newline>'' @
     ''      "description": "A short identifier for this subagent (e.g., 'research-api', 'test-runner')"\<newline>'' @
     ''    },\<newline>'' @
     ''    "prompt": {\<newline>'' @
     ''      "type": "string",\<newline>'' @
     ''      "description": "The message to send to the subagent"\<newline>'' @
     ''    },\<newline>'' @
     ''    "timeout_seconds": {\<newline>'' @
     ''      "type": "integer",\<newline>'' @
     ''      "description": "How long to wait for a response (default: 60, max: 300)"\<newline>'' @
     ''    },\<newline>'' @
     ''    "wait": {\<newline>'' @
     ''      "type": "boolean",\<newline>'' @
     ''      "description": "Whether to wait for completion (default: true). If false, returns immediately."\<newline>'' @
     ''    }''\<close>

definition schema_tail :: string where
  "schema_tail = ''\<newline>  }\<newline>}''"

definition modelProp_head :: string where
  \<open>modelProp_head =
     '',\<newline>'' @
     ''    "model": {\<newline>'' @
     ''      "type": "string",\<newline>'' @
     ''      "description": "LLM model for the subagent. Defaults to the parent conversation's model.",\<newline>'' @
     ''      "enum": [''\<close>

definition modelProp_tail :: string where
  "modelProp_tail = '']\<newline>    }''"

definition enumItems :: "(string \<Rightarrow> string) \<Rightarrow> AvailableModel list \<Rightarrow> string list" where
  "enumItems quote ms = foldl (\<lambda>items m. items @ [quote (ID m)]) [] ms"

definition modelProp :: "(string \<Rightarrow> string) \<Rightarrow> 'w SubagentTool \<Rightarrow> string" where
  "modelProp quote s =
     (if length (AvailableModels s) > 0
      then modelProp_head @ Join (enumItems quote (AvailableModels s)) '', '' @ modelProp_tail
      else '''')"

definition subagentInputSchema :: "(string \<Rightarrow> string) \<Rightarrow> 'w SubagentTool \<Rightarrow> string" where
  "subagentInputSchema quote s = schema_head @ modelProp quote s @ schema_tail"

subsection \<open>\<open>Run\<close>\<close>

definition Second :: int where
  "Second = 1000000000"

text \<open>
  The timeout: \<open>60 * time.Second\<close> unless \<open>TimeoutSeconds\<close> is positive, and then at most
  \<open>300\<close> seconds. The product is at most \<open>3 * 10^11\<close>, inside \<open>int64\<close>.
\<close>

definition resolveTimeout :: "subagentInput \<Rightarrow> int" where
  "resolveTimeout req =
     (if TimeoutSeconds req > 0
      then (if TimeoutSeconds req > 300 then 300 else TimeoutSeconds req) * Second
      else 60 * Second)"

definition resolveWait :: "subagentInput \<Rightarrow> bool" where
  "resolveWait req = (case Wait req of None \<Rightarrow> True | Some b \<Rightarrow> b)"

text \<open>The search loop: \<open>found\<close> after the loop over \<open>AvailableModels\<close>.\<close>

fun found :: "AvailableModel list \<Rightarrow> string \<Rightarrow> bool" where
  "found [] model = False"
| "found (m # ms) model = (if ID m = model then True else found ms model)"

text \<open>
  The choice of the model: the identifier to use, or the message of the error that \<open>Run\<close>
  returns.
\<close>

definition selectModel ::
  "(string \<Rightarrow> string) \<Rightarrow> 'w SubagentTool \<Rightarrow> subagentInput \<Rightarrow> string + string" where
  "selectModel quote s req =
     (if Model req \<noteq> '''' then
        (if length (AvailableModels s) > 0 then
           (if \<not> found (AvailableModels s) (Model req)
            then Inl (''unknown model '' @ quote (Model req) @ ''; available: ''
                      @ Join (map ID (AvailableModels s)) '', '')
            else Inr (Model req))
         else Inr (Model req))
      else Inr (ModelID s))"

text \<open>The output of a call that went through: the text for the model and the display data.\<close>

definition reply :: "string \<Rightarrow> string \<Rightarrow> string \<Rightarrow> string \<Rightarrow> ToolOut" where
  "reply slug conversationID actualSlug response =
     (let slugNote =
        (if actualSlug \<noteq> slug
         then '' (Note: slug was changed to '' @ [CHR 0x27] @ actualSlug @ [CHR 0x27]
              @ '' for uniqueness. Use '' @ [CHR 0x27] @ actualSlug @ [CHR 0x27]
              @ '' for future messages to this subagent.)''
         else '''')
      in \<lparr>LLMContent = TextContent (''Subagent '' @ [CHR 0x27] @ actualSlug @ [CHR 0x27]
                @ '' response:'' @ slugNote @ ''\<newline>'' @ response),
          Display = Some \<lparr>Slug = actualSlug, ConversationID = conversationID\<rparr>,
          Error = None\<rparr>)"

text \<open>
  \<open>Run\<close>. The raw message \<open>m\<close> is given by what \<open>json.Unmarshal(m, &req)\<close> makes of it:
  \<open>Inl\<close> the text of the decoding error, or \<open>Inr\<close> the decoded request. The result is
  the tool output, the calls made to the collaborators, and the state they leave.
\<close>

definition Run ::
  "(rune \<Rightarrow> rune) \<Rightarrow> (string \<Rightarrow> string) \<Rightarrow> 'w SubagentTool \<Rightarrow> 'w
     \<Rightarrow> string + subagentInput \<Rightarrow> ToolOut \<times> call list \<times> 'w" where
  "Run tbl quote s w m =
     (case m of
        Inl err \<Rightarrow> (ErrorfToolOut (''failed to parse subagent input: '' @ err), [], w)
      | Inr req \<Rightarrow>
          if subagentInput.Slug req = '''' then (ErrorfToolOut ''slug is required'', [], w)
          else
            let slug = sanitizeSlug tbl (subagentInput.Slug req) in
            if slug = ''''
            then (ErrorfToolOut ''slug must contain alphanumeric characters'', [], w)
            else if Prompt req = '''' then (ErrorfToolOut ''prompt is required'', [], w)
            else
              let timeout = resolveTimeout req; wait = resolveWait req in
              case selectModel quote s req of
                Inl msg \<Rightarrow> (ErrorfToolOut msg, [], w)
              | Inr modelID \<Rightarrow>
                  let cwd = WorkingDir s w;
                      c1 = GetOrCreateSubagentConversation slug (ParentConversationID s) cwd
                  in case DB s slug (ParentConversationID s) cwd w of
                       (Inl err, w1) \<Rightarrow>
                         (ErrorfToolOut (''failed to get/create subagent conversation: '' @ err),
                          [c1], w1)
                     | (Inr (conversationID, actualSlug), w1) \<Rightarrow>
                         let c2 = RunSubagent conversationID (Prompt req) wait timeout modelID
                         in case Runner s conversationID (Prompt req) wait timeout modelID w1 of
                              (Inl err, w2) \<Rightarrow>
                                (ErrorfToolOut (''subagent error: '' @ err), [c1, c2], w2)
                            | (Inr response, w2) \<Rightarrow>
                                (reply slug conversationID actualSlug response, [c1, c2], w2))"


subsection \<open>The collaborators of the tests\<close>

text \<open>
  \<open>mockSubagentDB\<close> and \<open>mockSubagentRunner\<close> of the package's test file, over a state
  that holds the mock directory's map, the model the mock runner saw last and the
  working directory. \<open>renamingGetOrCreate\<close> is a directory that answers with a suffixed
  slug, which the mock never does. \<open>plainQuote\<close> is \<open>strconv.Quote\<close> on printable ASCII
  without quote or backslash; \<open>sampleCaseTable\<close> holds two entries of the Unicode case
  table, those that lower KELVIN SIGN to \<open>k\<close> and LATIN CAPITAL LETTER I WITH DOT ABOVE
  to \<open>i\<close>, and leaves every other rune as it is.
\<close>

record mockWorld =
  conversations :: "(string \<times> string) list"
  lastModelID :: string
  cwd :: string

definition mockGetOrCreate ::
  "string \<Rightarrow> string \<Rightarrow> string \<Rightarrow> mockWorld \<Rightarrow> (string + string \<times> string) \<times> mockWorld" where
  "mockGetOrCreate slug parentID dir w =
     (let key = parentID @ '':'' @ slug in
      case map_of (conversations w) key of
        Some cid \<Rightarrow> (Inr (cid, slug), w)
      | None \<Rightarrow>
          (Inr (''subagent-'' @ slug, slug),
           w\<lparr>conversations := (key, ''subagent-'' @ slug) # conversations w\<rparr>))"

definition mockRunSubagent ::
  "string + string \<Rightarrow> string \<Rightarrow> string \<Rightarrow> bool \<Rightarrow> int \<Rightarrow> string \<Rightarrow> mockWorld
     \<Rightarrow> (string + string) \<times> mockWorld" where
  "mockRunSubagent result conversationID prompt wait timeout modelID w =
     (result, w\<lparr>lastModelID := modelID\<rparr>)"

definition renamingGetOrCreate ::
  "string \<Rightarrow> string \<Rightarrow> string \<Rightarrow> mockWorld \<Rightarrow> (string + string \<times> string) \<times> mockWorld" where
  "renamingGetOrCreate slug parentID dir w =
     (Inr (''subagent-'' @ slug @ ''-3'', slug @ ''-3''), w)"

definition emptyWorld :: mockWorld where
  "emptyWorld = \<lparr>conversations = [], lastModelID = '''', cwd = ''/tmp''\<rparr>"

definition plainQuote :: "string \<Rightarrow> string" where
  \<open>plainQuote x = ''"'' @ x @ ''"''\<close>

definition sampleCaseTable :: "rune \<Rightarrow> rune" where
  "sampleCaseTable r = (if r = 0x212A then 0x6B else if r = 0x130 then 0x69 else r)"

definition testTool :: "mockWorld SubagentTool" where
  "testTool =
     \<lparr>DB = mockGetOrCreate, ParentConversationID = ''parent-123'', WorkingDir = cwd,
      Runner = mockRunSubagent (Inr ''OK''), ModelID = ''sonnet'',
      AvailableModels = [\<lparr>ID = ''sonnet'', DisplayName = ''''\<rparr>,
                         \<lparr>ID = ''haiku'', DisplayName = ''Haiku 4.5''\<rparr>]\<rparr>"

definition noModelsTool :: "mockWorld SubagentTool" where
  "noModelsTool = testTool\<lparr>AvailableModels := []\<rparr>"

definition renamingTool :: "mockWorld SubagentTool" where
  "renamingTool = testTool\<lparr>DB := renamingGetOrCreate\<rparr>"

definition request :: "string \<Rightarrow> string \<Rightarrow> int \<Rightarrow> string \<Rightarrow> string + subagentInput" where
  "request slug prompt secs model =
     Inr \<lparr>subagentInput.Slug = slug, Prompt = prompt, TimeoutSeconds = secs, Wait = None,
          Model = model\<rparr>"

section \<open>Properties of \<open>sanitizeSlug\<close>\<close>

subsection \<open>The library functions\<close>

lemma Contains_iff_sublist: "Contains s t \<longleftrightarrow> sublist t s"
  by (induction s) (auto simp: sublist_Cons_right)

lemma char_of_hyphen: "char_of (45::int) = CHR ''-''"
  using char_of_char [of "CHR ''-''", where ?'a = int] by simp

lemma decodeRunes_ascii: "list_all (\<lambda>c. byte c < 0x80) s \<Longrightarrow> decodeRunes s = map byte s"
  by (induction s) simp_all

lemma set_ReplaceAll_hyphens: "set (ReplaceAll_hyphens s) \<subseteq> set s"
  by (induction s rule: ReplaceAll_hyphens.induct) auto

lemma sublist_Trim_hyphens: "sublist (Trim_hyphens s) s"
proof -
  have "suffix (Trim_hyphens s) (trimRightByte s CHR ''-'')"
    by (simp add: Trim_hyphens_def trimLeftByte_def suffix_dropWhile)
  moreover have "prefix (trimRightByte s CHR ''-'') s"
    unfolding trimRightByte_def
    by (metis rev_rev_ident suffix_dropWhile suffix_to_prefix)
  ultimately show ?thesis
    by (meson prefix_imp_sublist suffix_imp_sublist sublist_order.order_trans)
qed

lemma set_Trim_hyphens: "set (Trim_hyphens s) \<subseteq> set s"
  using sublist_Trim_hyphens [of s] by (rule set_mono_sublist)

lemma Trim_hyphens_no_leading: "\<not> prefix ''-'' (Trim_hyphens s)"
proof
  assume "prefix ''-'' (Trim_hyphens s)"
  then obtain zs where zs: "Trim_hyphens s = CHR ''-'' # zs"
    by (auto simp: prefix_def)
  then have "Trim_hyphens s \<noteq> []" by simp
  then have "hd (Trim_hyphens s) \<noteq> CHR ''-''"
    unfolding Trim_hyphens_def trimLeftByte_def by (rule hd_dropWhile)
  with zs show False by simp
qed

lemma last_dropWhile_keep: "dropWhile P xs \<noteq> [] \<Longrightarrow> last (dropWhile P xs) = last xs"
  by (induction xs) (auto split: if_splits)

lemma Trim_hyphens_no_trailing: "\<not> suffix ''-'' (Trim_hyphens s)"
proof
  let ?t = "trimRightByte s CHR ''-''"
  assume "suffix ''-'' (Trim_hyphens s)"
  then obtain zs where zs: "Trim_hyphens s = zs @ ''-''"
    by (auto simp: suffix_def)
  then have ne: "dropWhile (\<lambda>x. x = CHR ''-'') ?t \<noteq> []"
    by (simp add: Trim_hyphens_def trimLeftByte_def)
  then have "last (Trim_hyphens s) = last ?t"
    unfolding Trim_hyphens_def trimLeftByte_def by (rule last_dropWhile_keep)
  with zs have l: "last ?t = CHR ''-''" by simp
  from ne have tne: "?t \<noteq> []" by auto
  then have dne: "dropWhile (\<lambda>x. x = CHR ''-'') (rev s) \<noteq> []"
    by (simp add: trimRightByte_def)
  then have "hd (dropWhile (\<lambda>x. x = CHR ''-'') (rev s)) \<noteq> CHR ''-''"
    by (rule hd_dropWhile)
  moreover have "last ?t = hd (dropWhile (\<lambda>x. x = CHR ''-'') (rev s))"
    using dne by (simp add: trimRightByte_def last_rev)
  ultimately show False using l by simp
qed

lemma Trim_hyphens_fixed:
  assumes "\<not> prefix ''-'' s" and "\<not> suffix ''-'' s"
  shows "Trim_hyphens s = s"
proof -
  have "dropWhile (\<lambda>x. x = CHR ''-'') (rev s) = rev s"
    using assms(2) by (cases "rev s") (auto simp: suffix_def)
  then have "trimRightByte s CHR ''-'' = s"
    by (simp add: trimRightByte_def)
  moreover have "dropWhile (\<lambda>x. x = CHR ''-'') s = s"
    using assms(1) by (cases s) (auto simp: prefix_def)
  ultimately show ?thesis
    by (simp add: Trim_hyphens_def trimLeftByte_def)
qed

subsection \<open>The two loops\<close>

lemma char_of_slug_rune:
  "(97 \<le> r \<and> r \<le> 122) \<or> (48 \<le> r \<and> r \<le> 57) \<or> r = 45 \<Longrightarrow> slug_char (char_of (r::int))"
  by (auto simp: slug_char_def char_of_hyphen)

lemma keepRunes_slug_chars: "list_all slug_char (keepRunes rs)"
  by (induction rs) (auto simp: char_of_slug_rune slug_char_def char_of_hyphen)

lemma slug_char_ascii: "slug_char c \<Longrightarrow> byte c < 0x80"
  by (auto simp: slug_char_def)

lemma unicode_ToLower_slug_char: "slug_char c \<Longrightarrow> unicode_ToLower tbl (byte c) = byte c"
  by (auto simp: slug_char_def unicode_ToLower_def)

lemma keepRunes_slug_string: "list_all slug_char s \<Longrightarrow> keepRunes (map byte s) = s"
  by (induction s) (auto simp: slug_char_def)

lemma set_collapseHyphens: "set (collapseHyphens s) \<subseteq> set s"
proof (induction s rule: collapseHyphens.induct)
  case (1 s)
  show ?case
  proof (cases "Contains s ''--''")
    case True
    with 1 have "set (collapseHyphens (ReplaceAll_hyphens s)) \<subseteq> set (ReplaceAll_hyphens s)"
      by simp
    with True show ?thesis
      using set_ReplaceAll_hyphens [of s] by (subst collapseHyphens.simps) auto
  next
    case False
    then show ?thesis by (subst collapseHyphens.simps) simp
  qed
qed

lemma collapseHyphens_no_double: "\<not> Contains (collapseHyphens s) ''--''"
proof (induction s rule: collapseHyphens.induct)
  case (1 s)
  then show ?case by (subst collapseHyphens.simps) simp
qed

lemma collapseHyphens_fixed: "\<not> Contains s ''--'' \<Longrightarrow> collapseHyphens s = s"
  by (subst collapseHyphens.simps) simp

subsection \<open>Shape of the result\<close>

lemma sanitizeSlug_alphabet: "list_all slug_char (sanitizeSlug tbl s)"
proof -
  let ?k = "keepRunes (map (unicode_ToLower tbl) (decodeRunes s))"
  have "set (sanitizeSlug tbl s) \<subseteq> set ?k"
    unfolding sanitizeSlug_def using set_Trim_hyphens set_collapseHyphens by blast
  then show ?thesis
    using keepRunes_slug_chars [of "map (unicode_ToLower tbl) (decodeRunes s)"]
    by (auto simp: list_all_iff)
qed

lemma sanitizeSlug_no_leading: "\<not> prefix ''-'' (sanitizeSlug tbl s)"
  unfolding sanitizeSlug_def by (rule Trim_hyphens_no_leading)

lemma sanitizeSlug_no_trailing: "\<not> suffix ''-'' (sanitizeSlug tbl s)"
  unfolding sanitizeSlug_def by (rule Trim_hyphens_no_trailing)

lemma sanitizeSlug_no_double: "\<not> sublist ''--'' (sanitizeSlug tbl s)"
proof
  let ?k = "keepRunes (map (unicode_ToLower tbl) (decodeRunes s))"
  have nd: "\<not> sublist ''--'' (collapseHyphens ?k)"
    using collapseHyphens_no_double [of ?k] by (simp add: Contains_iff_sublist)
  assume "sublist ''--'' (sanitizeSlug tbl s)"
  then have "sublist ''--'' (Trim_hyphens (collapseHyphens ?k))"
    by (simp only: sanitizeSlug_def)
  then have "sublist ''--'' (collapseHyphens ?k)"
    using sublist_Trim_hyphens by (rule sublist_order.order_trans)
  with nd show False ..
qed

lemma sanitizeSlug_fixed:
  assumes "list_all slug_char x" and "\<not> prefix ''-'' x" and "\<not> suffix ''-'' x"
    and "\<not> sublist ''--'' x"
  shows "sanitizeSlug tbl x = x"
proof -
  have d: "decodeRunes x = map byte x"
    using assms(1) by (intro decodeRunes_ascii) (auto simp: list_all_iff slug_char_ascii)
  have l: "map (unicode_ToLower tbl) (map byte x) = map byte x"
    using assms(1) by (auto simp: list_all_iff unicode_ToLower_slug_char)
  have k: "keepRunes (map byte x) = x"
    using assms(1) by (rule keepRunes_slug_string)
  have c: "collapseHyphens x = x"
    using assms(4) by (simp add: collapseHyphens_fixed Contains_iff_sublist)
  have t: "Trim_hyphens x = x"
    using assms(2,3) by (rule Trim_hyphens_fixed)
  show ?thesis
    by (simp only: sanitizeSlug_def d l k c t)
qed

lemma sanitizeSlug_empty: "sanitizeSlug tbl '''' = ''''"
  by (simp add: sanitizeSlug_def collapseHyphens.simps Trim_hyphens_def trimLeftByte_def
      trimRightByte_def)

subsection \<open>The steps of the specification\<close>

lemma keepRunes_spec: "keepRunes rs = map char_of (spec_drop_others (spec_map_separators rs))"
  by (induction rs) (auto simp: spec_drop_others_def spec_map_separators_def char_of_hyphen)

lemma spec_collapse_runs_fixed: "\<not> Contains s ''--'' \<Longrightarrow> spec_collapse_runs s = s"
  by (induction s rule: spec_collapse_runs.induct) auto

text \<open>A hyphen put before a collapsed string that starts with a hyphen merges into it.\<close>

lemma spec_collapse_runs_hd: "prefix ''-'' (spec_collapse_runs s) \<longleftrightarrow> prefix ''-'' s"
  by (induction s rule: spec_collapse_runs.induct) auto

lemma spec_collapse_runs_Cons:
  "spec_collapse_runs (c # s) =
     (if c = CHR ''-'' \<and> prefix ''-'' (spec_collapse_runs s) then spec_collapse_runs s
      else c # spec_collapse_runs s)"
  using spec_collapse_runs_hd [of s] by (cases s) auto

lemma spec_collapse_runs_ReplaceAll:
  "spec_collapse_runs (ReplaceAll_hyphens s) = spec_collapse_runs s"
proof (induction s rule: ReplaceAll_hyphens.induct)
  case (1 c d cs)
  show ?case
  proof (cases "c = CHR ''-'' \<and> d = CHR ''-''")
    case True
    then have "spec_collapse_runs (ReplaceAll_hyphens (c # d # cs))
        = spec_collapse_runs (CHR ''-'' # ReplaceAll_hyphens cs)"
      by simp
    also have "\<dots> = spec_collapse_runs (CHR ''-'' # cs)"
      using 1 True by (simp only: spec_collapse_runs_Cons [of _ "ReplaceAll_hyphens cs"]
          spec_collapse_runs_Cons [of _ cs])
    also have "\<dots> = spec_collapse_runs (c # d # cs)"
      using True by simp
    finally show ?thesis .
  next
    case False
    then have r: "ReplaceAll_hyphens (c # d # cs) = c # ReplaceAll_hyphens (d # cs)"
      by auto
    from 1 False have "spec_collapse_runs (ReplaceAll_hyphens (d # cs)) = spec_collapse_runs (d # cs)"
      by auto
    then show ?thesis
      by (simp only: r spec_collapse_runs_Cons [of c "ReplaceAll_hyphens (d # cs)"]
          spec_collapse_runs_Cons [of c "d # cs"])
  qed
qed simp_all

lemma collapseHyphens_spec: "collapseHyphens s = spec_collapse_runs s"
proof (induction s rule: collapseHyphens.induct)
  case (1 s)
  show ?case
  proof (cases "Contains s ''--''")
    case True
    with 1 show ?thesis
      by (subst collapseHyphens.simps) (simp add: spec_collapse_runs_ReplaceAll)
  next
    case False
    then show ?thesis
      by (subst collapseHyphens.simps) (simp add: spec_collapse_runs_fixed)
  qed
qed

text \<open>Trimming the right end first or the left end first gives the same string.\<close>

lemma trim_right_Cons:
  "rev (dropWhile P (rev (x # xs))) =
     (if list_all P xs \<and> P x then [] else x # rev (dropWhile P (rev xs)))"
proof (cases "list_all P xs")
  case True
  then have "dropWhile P (rev xs) = []" by (simp add: list_all_iff)
  moreover from True have "dropWhile P (rev xs @ [x]) = dropWhile P [x]"
    by (intro dropWhile_append2) (simp add: list_all_iff)
  ultimately show ?thesis using True by simp
next
  case False
  then obtain y where "y \<in> set (rev xs)" "\<not> P y" by (auto simp: list_all_iff)
  then have "dropWhile P (rev xs @ [x]) = dropWhile P (rev xs) @ [x]"
    by (rule dropWhile_append1)
  with False show ?thesis by simp
qed

lemma trim_commute:
  "dropWhile P (rev (dropWhile P (rev s))) = rev (dropWhile P (rev (dropWhile P s)))"
proof (induction s)
  case Nil
  show ?case by simp
next
  case (Cons x xs)
  show ?case
  proof (cases "P x")
    case True
    then show ?thesis using Cons
      by (auto simp: trim_right_Cons list_all_iff simp del: rev.simps dest: set_dropWhileD)
  next
    case False
    then show ?thesis by (simp add: trim_right_Cons del: rev.simps)
  qed
qed

lemma Trim_hyphens_spec: "Trim_hyphens s = spec_trim s"
  unfolding Trim_hyphens_def trimLeftByte_def trimRightByte_def spec_trim_def
  by (rule trim_commute)

lemma sanitizeSlug_spec_sanitize: "sanitizeSlug tbl s = spec_sanitize tbl s"
  by (simp only: sanitizeSlug_def spec_sanitize_def keepRunes_spec collapseHyphens_spec
      Trim_hyphens_spec spec_lowercase_def)

subsection \<open>The claims on \<open>sanitizeSlug\<close>\<close>

text \<open>
  Claim C4. \<open>sanitizeSlug\<close> computes the algorithm of the specification, in its order:
  lowercase, map space and underscore to a hyphen, drop every character outside
  \<open>a-z\<close>, \<open>0-9\<close>, hyphen, then collapse the runs of hyphens, then trim the hyphens at both
  ends; and it gives the eight values of the sanitization table. This holds whatever
  the Unicode case table is.
\<close>

theorem sanitizeSlug_computes_spec_algorithm:
  "sanitizeSlug tbl s = spec_sanitize tbl s
   \<and> sanitizeSlug tbl ''Test Slug'' = ''test-slug''
   \<and> sanitizeSlug tbl ''test_slug'' = ''test-slug''
   \<and> sanitizeSlug tbl ''test--slug'' = ''test-slug''
   \<and> sanitizeSlug tbl ''-test-slug-'' = ''test-slug''
   \<and> sanitizeSlug tbl ''test@slug!'' = ''testslug''
   \<and> sanitizeSlug tbl ''123-abc'' = ''123-abc''
   \<and> sanitizeSlug tbl '''' = ''''
   \<and> sanitizeSlug tbl ''@#$%'' = ''''"
proof (intro conjI)
  show "sanitizeSlug tbl s = spec_sanitize tbl s"
    by (rule sanitizeSlug_spec_sanitize)
  show "sanitizeSlug tbl ''Test Slug'' = ''test-slug''" by code_simp
  show "sanitizeSlug tbl ''test_slug'' = ''test-slug''" by code_simp
  show "sanitizeSlug tbl ''test--slug'' = ''test-slug''" by code_simp
  show "sanitizeSlug tbl ''-test-slug-'' = ''test-slug''" by code_simp
  show "sanitizeSlug tbl ''test@slug!'' = ''testslug''" by code_simp
  show "sanitizeSlug tbl ''123-abc'' = ''123-abc''" by code_simp
  show "sanitizeSlug tbl '''' = ''''" by code_simp
  show "sanitizeSlug tbl ''@#$%'' = ''''" by code_simp
qed

text \<open>
  Claim C5. Slug sanitization is idempotent: sanitizing a sanitized string changes
  nothing.
\<close>

theorem sanitizeSlug_idempotent:
  "sanitizeSlug tbl (sanitizeSlug tbl x) = sanitizeSlug tbl x"
  by (intro sanitizeSlug_fixed sanitizeSlug_alphabet sanitizeSlug_no_leading
      sanitizeSlug_no_trailing sanitizeSlug_no_double)

text \<open>
  An instance of C5: the bytes \<open>E2 84 AA\<close> are the KELVIN SIGN, which the case table
  lowers to \<open>k\<close>.
\<close>

theorem sanitizeSlug_idempotent_witness:
  "sanitizeSlug sampleCaseTable ([CHR 0xE2, CHR 0x84, CHR 0xAA] @ ''9 __ Lives--'') = ''k9-lives''
   \<and> sanitizeSlug sampleCaseTable
        (sanitizeSlug sampleCaseTable ([CHR 0xE2, CHR 0x84, CHR 0xAA] @ ''9 __ Lives--''))
      = ''k9-lives''"
proof -
  have e: "sanitizeSlug sampleCaseTable ([CHR 0xE2, CHR 0x84, CHR 0xAA] @ ''9 __ Lives--'')
      = ''k9-lives''"
    by code_simp
  show ?thesis
    using sanitizeSlug_idempotent
      [of sampleCaseTable "[CHR 0xE2, CHR 0x84, CHR 0xAA] @ ''9 __ Lives--''"]
    by (simp only: e simp_thms)
qed

text \<open>
  Claim C6. For every string \<open>s\<close>, \<open>sanitizeSlug s\<close> contains only characters of
  \<open>a-z\<close>, \<open>0-9\<close> and hyphen, has no leading and no trailing hyphen, and contains no
  \<open>--\<close>.
\<close>

theorem sanitizeSlug_is_slug:
  "list_all slug_char (sanitizeSlug tbl s)
   \<and> \<not> prefix ''-'' (sanitizeSlug tbl s)
   \<and> \<not> suffix ''-'' (sanitizeSlug tbl s)
   \<and> \<not> sublist ''--'' (sanitizeSlug tbl s)"
  by (intro conjI sanitizeSlug_alphabet sanitizeSlug_no_leading sanitizeSlug_no_trailing
      sanitizeSlug_no_double)

theorem sanitizeSlug_is_slug_witness:
  "sanitizeSlug sampleCaseTable ''--My  Task__#1--'' = ''my-task-1''
   \<and> list_all slug_char ''my-task-1''
   \<and> \<not> prefix ''-'' ''my-task-1''
   \<and> \<not> suffix ''-'' ''my-task-1''
   \<and> \<not> sublist ''--'' ''my-task-1''"
proof -
  have e: "sanitizeSlug sampleCaseTable ''--My  Task__#1--'' = ''my-task-1''"
    by code_simp
  show ?thesis
    using sanitizeSlug_is_slug [of sampleCaseTable "''--My  Task__#1--''"]
    by (simp only: e simp_thms)
qed

section \<open>Properties of \<open>Run\<close>\<close>

subsection \<open>The paths through \<open>Run\<close>\<close>

lemma found_iff: "found ms x \<longleftrightarrow> x \<in> set (map ID ms)"
  by (induction ms) auto

lemma Error_ErrorfToolOut: "Error (ErrorfToolOut msg) = Some msg"
  by (simp add: ErrorfToolOut_def)

lemma Run_decode_error:
  "Run tbl quote s w (Inl err) =
     (ErrorfToolOut (''failed to parse subagent input: '' @ err), [], w)"
  by (simp add: Run_def)

lemma Run_slug_required:
  "subagentInput.Slug req = '''' \<Longrightarrow>
   Run tbl quote s w (Inr req) = (ErrorfToolOut ''slug is required'', [], w)"
  by (simp add: Run_def)

lemma Run_slug_not_alphanumeric:
  "subagentInput.Slug req \<noteq> '''' \<Longrightarrow> sanitizeSlug tbl (subagentInput.Slug req) = '''' \<Longrightarrow>
   Run tbl quote s w (Inr req) =
     (ErrorfToolOut ''slug must contain alphanumeric characters'', [], w)"
  by (simp add: Run_def)

lemma Run_prompt_required:
  "sanitizeSlug tbl (subagentInput.Slug req) \<noteq> '''' \<Longrightarrow> Prompt req = '''' \<Longrightarrow>
   Run tbl quote s w (Inr req) = (ErrorfToolOut ''prompt is required'', [], w)"
  using sanitizeSlug_empty [of tbl] by (auto simp: Run_def)

lemma Run_model_rejected:
  "sanitizeSlug tbl (subagentInput.Slug req) \<noteq> '''' \<Longrightarrow> Prompt req \<noteq> '''' \<Longrightarrow>
   selectModel quote s req = Inl msg \<Longrightarrow>
   Run tbl quote s w (Inr req) = (ErrorfToolOut msg, [], w)"
  using sanitizeSlug_empty [of tbl] by (auto simp: Run_def)

lemma selectModel_Inl_iff:
  "(\<exists>msg. selectModel quote s req = Inl msg) \<longleftrightarrow>
     Model req \<noteq> '''' \<and> AvailableModels s \<noteq> [] \<and> Model req \<notin> set (map ID (AvailableModels s))"
  by (auto simp: selectModel_def found_iff)






text \<open>A call without error went through the directory and the runner.\<close>

lemma Run_success:
  assumes "Error (toolOut (Run tbl quote s w (Inr req))) = None"
  shows "\<exists>cid actual resp w1 mid.
       selectModel quote s req = Inr mid
     \<and> DB s (sanitizeSlug tbl (subagentInput.Slug req)) (ParentConversationID s)
             (WorkingDir s w) w = (Inr (cid, actual), w1)
     \<and> Runner s cid (Prompt req) (resolveWait req) (resolveTimeout req) mid w1
         = (Inr resp, worldAfter (Run tbl quote s w (Inr req)))
     \<and> toolOut (Run tbl quote s w (Inr req))
         = reply (sanitizeSlug tbl (subagentInput.Slug req)) cid actual resp"
  using assms
  by (auto simp: Run_def Let_def Error_ErrorfToolOut split: if_splits sum.splits prod.splits)

subsection \<open>The model override (C1)\<close>

text \<open>
  Claim C1, amended. For every decoded request that supplies a non-empty model which is
  not a member of a non-empty registry, \<open>Run\<close> returns a tool error and makes no call
  at all, so it does not dispatch to the runner. (With an empty registry the membership
  test is skipped: see the counterexample below.)
\<close>

theorem Run_rejects_unlisted_model:
  assumes "Model req \<noteq> ''''" and "AvailableModels s \<noteq> []"
    and "Model req \<notin> set (map ID (AvailableModels s))"
  shows "Error (toolOut (Run tbl quote s w (Inr req))) \<noteq> None
     \<and> callsMade (Run tbl quote s w (Inr req)) = []"
proof -
  from assms obtain msg where msg: "selectModel quote s req = Inl msg"
    using selectModel_Inl_iff [of quote s req] by blast
  consider "subagentInput.Slug req = ''''"
    | "subagentInput.Slug req \<noteq> ''''" "sanitizeSlug tbl (subagentInput.Slug req) = ''''"
    | "sanitizeSlug tbl (subagentInput.Slug req) \<noteq> ''''" "Prompt req = ''''"
    | "sanitizeSlug tbl (subagentInput.Slug req) \<noteq> ''''" "Prompt req \<noteq> ''''"
    by blast
  then show ?thesis
  proof cases
    case 1
    then show ?thesis by (simp add: Run_slug_required Error_ErrorfToolOut)
  next
    case 2
    then show ?thesis by (simp add: Run_slug_not_alphanumeric Error_ErrorfToolOut)
  next
    case 3
    then show ?thesis by (simp add: Run_prompt_required Error_ErrorfToolOut)
  next
    case 4
    then show ?thesis using msg by (simp add: Run_model_rejected Error_ErrorfToolOut)
  qed
qed

text \<open>A request as in \<open>TestSubagentTool_ModelOverride_InvalidModel\<close>.\<close>

theorem Run_rejects_unlisted_model_witness:
  "Error (toolOut (Run sampleCaseTable plainQuote testTool emptyWorld
       (request ''test'' ''do something'' 0 ''nonexistent'')))
     = Some (''unknown model '' @ plainQuote ''nonexistent'' @ ''; available: sonnet, haiku'')
   \<and> callsMade (Run sampleCaseTable plainQuote testTool emptyWorld
       (request ''test'' ''do something'' 0 ''nonexistent'')) = []"
proof -
  let ?req = "\<lparr>subagentInput.Slug = ''test'', Prompt = ''do something'', TimeoutSeconds = 0,
      Wait = None, Model = ''nonexistent''\<rparr>"
  have h1: "Model ?req \<noteq> ''''" by simp
  have h2: "AvailableModels testTool \<noteq> []" by (simp add: testTool_def)
  have h3: "Model ?req \<notin> set (map ID (AvailableModels testTool))" by (simp add: testTool_def)
  have e: "Error (toolOut (Run sampleCaseTable plainQuote testTool emptyWorld
       (request ''test'' ''do something'' 0 ''nonexistent'')))
     = Some (''unknown model '' @ plainQuote ''nonexistent'' @ ''; available: sonnet, haiku'')"
    by code_simp
  from Run_rejects_unlisted_model [OF h1 h2 h3, of sampleCaseTable plainQuote emptyWorld]
  show ?thesis using e by (simp add: request_def)
qed

text \<open>
  Claim C1 as stated fails: with an empty registry (the tool of
  \<open>TestSubagentTool_NoModels\<close>) the model \<open>nonexistent\<close> is supplied, is a member of no
  registry, and \<open>Run\<close> returns no error and passes it to the runner.
\<close>

theorem Run_empty_registry_accepts_unlisted_model:
  "''nonexistent'' \<noteq> ''''
   \<and> ''nonexistent'' \<notin> set (map ID (AvailableModels noModelsTool))
   \<and> Error (toolOut (Run sampleCaseTable plainQuote noModelsTool emptyWorld
        (request ''test'' ''do something'' 0 ''nonexistent''))) = None
   \<and> callsMade (Run sampleCaseTable plainQuote noModelsTool emptyWorld
        (request ''test'' ''do something'' 0 ''nonexistent''))
      = [GetOrCreateSubagentConversation ''test'' ''parent-123'' ''/tmp'',
         RunSubagent ''subagent-test'' ''do something'' True 60000000000 ''nonexistent'']"
  by code_simp

subsection \<open>The required fields (C2)\<close>

text \<open>
  Claim C2, amended. For every decoded request: if the slug is the empty string, \<open>Run\<close>
  returns the error \<open>slug is required\<close>; if the slug is non-empty but sanitizes to the
  empty string, \<open>Run\<close> returns \<open>slug must contain alphanumeric characters\<close>; if the slug
  sanitizes to a non-empty string and the prompt is the empty string, \<open>Run\<close> returns
  \<open>prompt is required\<close>. The slug is checked and normalized before the prompt is looked
  at.
\<close>

theorem Run_required_fields:
  "(subagentInput.Slug req = '''' \<longrightarrow>
      Error (toolOut (Run tbl quote s w (Inr req))) = Some ''slug is required'')
   \<and> (subagentInput.Slug req \<noteq> '''' \<and> sanitizeSlug tbl (subagentInput.Slug req) = '''' \<longrightarrow>
      Error (toolOut (Run tbl quote s w (Inr req)))
        = Some ''slug must contain alphanumeric characters'')
   \<and> (sanitizeSlug tbl (subagentInput.Slug req) \<noteq> '''' \<and> Prompt req = '''' \<longrightarrow>
      Error (toolOut (Run tbl quote s w (Inr req))) = Some ''prompt is required'')"
  by (simp add: Run_slug_required Run_slug_not_alphanumeric Run_prompt_required
      Error_ErrorfToolOut)

text \<open>The three cases of \<open>TestSubagentTool_Validation\<close>.\<close>

theorem Run_required_fields_witness:
  "Error (toolOut (Run sampleCaseTable plainQuote testTool emptyWorld
      (request '''' ''test'' 0 ''''))) = Some ''slug is required''
   \<and> Error (toolOut (Run sampleCaseTable plainQuote testTool emptyWorld
      (request ''@#$%'' ''test'' 0 ''''))) = Some ''slug must contain alphanumeric characters''
   \<and> Error (toolOut (Run sampleCaseTable plainQuote testTool emptyWorld
      (request ''test'' '''' 0 ''''))) = Some ''prompt is required''"
proof -
  have s2: "sanitizeSlug sampleCaseTable ''@#$%'' = ''''" by code_simp
  have s3: "sanitizeSlug sampleCaseTable ''test'' = ''test''" by code_simp
  note r = Run_required_fields [where tbl = sampleCaseTable and quote = plainQuote
      and s = testTool and w = emptyWorld]
  from r [of "\<lparr>subagentInput.Slug = '''', Prompt = ''test'', TimeoutSeconds = 0,
      Wait = None, Model = ''''\<rparr>"]
    r [of "\<lparr>subagentInput.Slug = ''@#$%'', Prompt = ''test'', TimeoutSeconds = 0,
      Wait = None, Model = ''''\<rparr>"]
    r [of "\<lparr>subagentInput.Slug = ''test'', Prompt = '''', TimeoutSeconds = 0,
      Wait = None, Model = ''''\<rparr>"]
  show ?thesis by (simp add: request_def s2 s3)
qed

text \<open>
  Claim C2 as stated fails: the slug \<open>@#$%\<close> is non-empty and the prompt is empty, yet
  the error is not \<open>prompt is required\<close>; the prompt is checked after the slug has been
  normalized, not before.
\<close>

theorem Run_checks_slug_before_prompt:
  "''@#$%'' \<noteq> ''''
   \<and> Error (toolOut (Run sampleCaseTable plainQuote testTool emptyWorld
        (request ''@#$%'' '''' 0 ''''))) = Some ''slug must contain alphanumeric characters''
   \<and> Error (toolOut (Run sampleCaseTable plainQuote testTool emptyWorld
        (request ''@#$%'' '''' 0 ''''))) \<noteq> Some ''prompt is required''"
  by code_simp

subsection \<open>The reply (C3)\<close>

text \<open>
  Claim C3. For every successful call (a decoded request on which \<open>Run\<close> returns no
  error), with the conversation id and the actual slug returned by the directory and the
  text returned by the runner: the text for the model is \<open>Subagent '<actual>' response:\<close>,
  followed, exactly when the actual slug differs from the requested sanitized slug, by
  the note on the changed slug, then a newline, then the runner's text; and the display
  data is the actual slug with the conversation id.
\<close>

theorem Run_success_reply:
  assumes "Error (toolOut (Run tbl quote s w (Inr req))) = None"
  shows "\<exists>cid actual resp w1 mid.
       DB s (sanitizeSlug tbl (subagentInput.Slug req)) (ParentConversationID s)
          (WorkingDir s w) w = (Inr (cid, actual), w1)
     \<and> Runner s cid (Prompt req) (resolveWait req) (resolveTimeout req) mid w1
         = (Inr resp, worldAfter (Run tbl quote s w (Inr req)))
     \<and> LLMContent (toolOut (Run tbl quote s w (Inr req)))
         = [''Subagent '' @ [CHR 0x27] @ actual @ [CHR 0x27] @ '' response:''
            @ (if actual \<noteq> sanitizeSlug tbl (subagentInput.Slug req)
               then '' (Note: slug was changed to '' @ [CHR 0x27] @ actual @ [CHR 0x27]
                    @ '' for uniqueness. Use '' @ [CHR 0x27] @ actual @ [CHR 0x27]
                    @ '' for future messages to this subagent.)''
               else '''')
            @ ''\<newline>'' @ resp]
     \<and> Display (toolOut (Run tbl quote s w (Inr req)))
         = Some \<lparr>Slug = actual, ConversationID = cid\<rparr>"
proof -
  from Run_success [OF assms] obtain cid actual resp w1 mid where
    db: "DB s (sanitizeSlug tbl (subagentInput.Slug req)) (ParentConversationID s)
          (WorkingDir s w) w = (Inr (cid, actual), w1)"
    and rn: "Runner s cid (Prompt req) (resolveWait req) (resolveTimeout req) mid w1
         = (Inr resp, worldAfter (Run tbl quote s w (Inr req)))"
    and out: "toolOut (Run tbl quote s w (Inr req))
         = reply (sanitizeSlug tbl (subagentInput.Slug req)) cid actual resp"
    by blast
  from out have "LLMContent (toolOut (Run tbl quote s w (Inr req)))
         = [''Subagent '' @ [CHR 0x27] @ actual @ [CHR 0x27] @ '' response:''
            @ (if actual \<noteq> sanitizeSlug tbl (subagentInput.Slug req)
               then '' (Note: slug was changed to '' @ [CHR 0x27] @ actual @ [CHR 0x27]
                    @ '' for uniqueness. Use '' @ [CHR 0x27] @ actual @ [CHR 0x27]
                    @ '' for future messages to this subagent.)''
               else '''')
            @ ''\<newline>'' @ resp]"
    by (simp add: reply_def TextContent_def)
  moreover from out have "Display (toolOut (Run tbl quote s w (Inr req)))
         = Some \<lparr>Slug = actual, ConversationID = cid\<rparr>"
    by (simp add: reply_def)
  ultimately show ?thesis using db rn by blast
qed

text \<open>
  An instance with a directory that answers \<open>foo-3\<close> to the slug \<open>foo\<close>: the note is
  in the text.
\<close>

theorem Run_success_reply_witness:
  "Error (toolOut (Run sampleCaseTable plainQuote renamingTool emptyWorld
      (request ''Foo'' ''hi'' 0 ''''))) = None
   \<and> (\<exists>cid actual resp w1 mid.
       renamingGetOrCreate ''foo'' ''parent-123'' ''/tmp'' emptyWorld = (Inr (cid, actual), w1)
     \<and> mockRunSubagent (Inr ''OK'') cid ''hi'' True (60 * Second) mid w1
         = (Inr resp, worldAfter (Run sampleCaseTable plainQuote renamingTool emptyWorld
              (request ''Foo'' ''hi'' 0 '''')))
     \<and> LLMContent (toolOut (Run sampleCaseTable plainQuote renamingTool emptyWorld
          (request ''Foo'' ''hi'' 0 '''')))
         = [''Subagent '' @ [CHR 0x27] @ actual @ [CHR 0x27] @ '' response:''
            @ (if actual \<noteq> ''foo''
               then '' (Note: slug was changed to '' @ [CHR 0x27] @ actual @ [CHR 0x27]
                    @ '' for uniqueness. Use '' @ [CHR 0x27] @ actual @ [CHR 0x27]
                    @ '' for future messages to this subagent.)''
               else '''')
            @ ''\<newline>'' @ resp]
     \<and> Display (toolOut (Run sampleCaseTable plainQuote renamingTool emptyWorld
          (request ''Foo'' ''hi'' 0 '''')))
         = Some \<lparr>Slug = actual, ConversationID = cid\<rparr>)
   \<and> LLMContent (toolOut (Run sampleCaseTable plainQuote renamingTool emptyWorld
        (request ''Foo'' ''hi'' 0 '''')))
      = [''Subagent '' @ [CHR 0x27] @ ''foo-3'' @ [CHR 0x27] @ '' response:''
         @ '' (Note: slug was changed to '' @ [CHR 0x27] @ ''foo-3'' @ [CHR 0x27]
         @ '' for uniqueness. Use '' @ [CHR 0x27] @ ''foo-3'' @ [CHR 0x27]
         @ '' for future messages to this subagent.)'' @ ''\<newline>'' @ ''OK'']"
proof -
  let ?req = "\<lparr>subagentInput.Slug = ''Foo'', Prompt = ''hi'', TimeoutSeconds = 0,
      Wait = None, Model = ''''\<rparr>"
  have h: "Error (toolOut (Run sampleCaseTable plainQuote renamingTool emptyWorld (Inr ?req)))
      = None"
    by code_simp
  have s: "sanitizeSlug sampleCaseTable ''Foo'' = ''foo''" by code_simp
  have t: "LLMContent (toolOut (Run sampleCaseTable plainQuote renamingTool emptyWorld
        (Inr ?req)))
      = [''Subagent '' @ [CHR 0x27] @ ''foo-3'' @ [CHR 0x27] @ '' response:''
         @ '' (Note: slug was changed to '' @ [CHR 0x27] @ ''foo-3'' @ [CHR 0x27]
         @ '' for uniqueness. Use '' @ [CHR 0x27] @ ''foo-3'' @ [CHR 0x27]
         @ '' for future messages to this subagent.)'' @ ''\<newline>'' @ ''OK'']"
    by code_simp
  have c: "DB renamingTool = renamingGetOrCreate"
    "Runner renamingTool = mockRunSubagent (Inr ''OK'')"
    "ParentConversationID renamingTool = ''parent-123''"
    "WorkingDir renamingTool emptyWorld = ''/tmp''"
    "resolveWait ?req = True" "resolveTimeout ?req = 60 * Second"
    by (simp_all add: renamingTool_def testTool_def emptyWorld_def resolveWait_def
        resolveTimeout_def)
  from Run_success_reply [OF h]
  have "\<exists>cid actual resp w1 mid.
       renamingGetOrCreate ''foo'' ''parent-123'' ''/tmp'' emptyWorld = (Inr (cid, actual), w1)
     \<and> mockRunSubagent (Inr ''OK'') cid ''hi'' True (60 * Second) mid w1
         = (Inr resp, worldAfter (Run sampleCaseTable plainQuote renamingTool emptyWorld
              (Inr ?req)))
     \<and> LLMContent (toolOut (Run sampleCaseTable plainQuote renamingTool emptyWorld (Inr ?req)))
         = [''Subagent '' @ [CHR 0x27] @ actual @ [CHR 0x27] @ '' response:''
            @ (if actual \<noteq> ''foo''
               then '' (Note: slug was changed to '' @ [CHR 0x27] @ actual @ [CHR 0x27]
                    @ '' for uniqueness. Use '' @ [CHR 0x27] @ actual @ [CHR 0x27]
                    @ '' for future messages to this subagent.)''
               else '''')
            @ ''\<newline>'' @ resp]
     \<and> Display (toolOut (Run sampleCaseTable plainQuote renamingTool emptyWorld (Inr ?req)))
         = Some \<lparr>Slug = actual, ConversationID = cid\<rparr>"
    by (simp only: c s subagentInput.simps)
  with h t show ?thesis by (simp only: request_def simp_thms)
qed

subsection \<open>The timeout (C7)\<close>



subsection \<open>The model passed on (C8)\<close>



subsection \<open>No call on invalid input (C10)\<close>

text \<open>
  Claim C10. For every raw input on which \<open>Run\<close> fails JSON decoding or fails a
  validation step (empty slug, slug sanitizing to empty, empty prompt, or rejected
  model), \<open>Run\<close> returns the error without calling \<open>GetOrCreateSubagentConversation\<close> and
  without calling \<open>RunSubagent\<close>: no call is made and the state outside the tool is left
  as it was.
\<close>

theorem Run_invalid_input_calls_nothing:
  assumes "m = Inl err
     \<or> (m = Inr req
        \<and> (subagentInput.Slug req = '''' \<or> sanitizeSlug tbl (subagentInput.Slug req) = ''''
            \<or> Prompt req = ''''
            \<or> (Model req \<noteq> '''' \<and> AvailableModels s \<noteq> []
                \<and> Model req \<notin> set (map ID (AvailableModels s)))))"
  shows "Error (toolOut (Run tbl quote s w m)) \<noteq> None
     \<and> callsMade (Run tbl quote s w m) = []
     \<and> worldAfter (Run tbl quote s w m) = w"
proof -
  consider (decode) "m = Inl err"
    | (noslug) "m = Inr req" "subagentInput.Slug req = ''''"
    | (badslug) "m = Inr req" "subagentInput.Slug req \<noteq> ''''"
        "sanitizeSlug tbl (subagentInput.Slug req) = ''''"
    | (noprompt) "m = Inr req" "sanitizeSlug tbl (subagentInput.Slug req) \<noteq> ''''"
        "Prompt req = ''''"
    | (model) "m = Inr req" "sanitizeSlug tbl (subagentInput.Slug req) \<noteq> ''''"
        "Prompt req \<noteq> ''''" "Model req \<noteq> ''''" "AvailableModels s \<noteq> []"
        "Model req \<notin> set (map ID (AvailableModels s))"
    using assms by blast
  then show ?thesis
  proof cases
    case decode
    then show ?thesis by (simp add: Run_decode_error Error_ErrorfToolOut)
  next
    case noslug
    then show ?thesis by (simp add: Run_slug_required Error_ErrorfToolOut)
  next
    case badslug
    then show ?thesis by (simp add: Run_slug_not_alphanumeric Error_ErrorfToolOut)
  next
    case noprompt
    then show ?thesis by (simp add: Run_prompt_required Error_ErrorfToolOut)
  next
    case model
    then obtain msg where "selectModel quote s req = Inl msg"
      using selectModel_Inl_iff [of quote s req] by blast
    with model show ?thesis by (simp add: Run_model_rejected Error_ErrorfToolOut)
  qed
qed

text \<open>Instances: a message that does not decode, a rejected model, a slug without letters.\<close>

theorem Run_invalid_input_calls_nothing_witness:
  "Error (toolOut (Run sampleCaseTable plainQuote testTool emptyWorld
        (Inl ''unexpected end of JSON input''))) \<noteq> None
   \<and> callsMade (Run sampleCaseTable plainQuote testTool emptyWorld
        (Inl ''unexpected end of JSON input'')) = []
   \<and> worldAfter (Run sampleCaseTable plainQuote testTool emptyWorld
        (Inl ''unexpected end of JSON input'')) = emptyWorld
   \<and> Error (toolOut (Run sampleCaseTable plainQuote testTool emptyWorld
        (request ''test'' ''do something'' 0 ''nonexistent''))) \<noteq> None
   \<and> callsMade (Run sampleCaseTable plainQuote testTool emptyWorld
        (request ''test'' ''do something'' 0 ''nonexistent'')) = []
   \<and> worldAfter (Run sampleCaseTable plainQuote testTool emptyWorld
        (request ''test'' ''do something'' 0 ''nonexistent'')) = emptyWorld
   \<and> callsMade (Run sampleCaseTable plainQuote testTool emptyWorld
        (request ''@#$%'' ''do something'' 0 '''')) = []"
proof -
  let ?r1 = "\<lparr>subagentInput.Slug = ''test'', Prompt = ''do something'',
      TimeoutSeconds = 0, Wait = None, Model = ''nonexistent''\<rparr>"
  let ?r2 = "\<lparr>subagentInput.Slug = ''@#$%'', Prompt = ''do something'',
      TimeoutSeconds = 0, Wait = None, Model = ''''\<rparr>"
  have h1: "Model ?r1 \<noteq> '''' \<and> AvailableModels testTool \<noteq> []
      \<and> Model ?r1 \<notin> set (map ID (AvailableModels testTool))"
    by (simp add: testTool_def)
  have h2: "sanitizeSlug sampleCaseTable (subagentInput.Slug ?r2) = ''''"
    by code_simp
  note t = Run_invalid_input_calls_nothing [where tbl = sampleCaseTable and quote = plainQuote
      and s = testTool and w = emptyWorld]
  from t [of "Inl ''unexpected end of JSON input''" "''unexpected end of JSON input''" ?r1]
  have d: "Error (toolOut (Run sampleCaseTable plainQuote testTool emptyWorld
        (Inl ''unexpected end of JSON input''))) \<noteq> None
   \<and> callsMade (Run sampleCaseTable plainQuote testTool emptyWorld
        (Inl ''unexpected end of JSON input'')) = []
   \<and> worldAfter (Run sampleCaseTable plainQuote testTool emptyWorld
        (Inl ''unexpected end of JSON input'')) = emptyWorld"
    by blast
  from t [of "Inr ?r1" "''''" ?r1] h1
  have a: "Error (toolOut (Run sampleCaseTable plainQuote testTool emptyWorld (Inr ?r1))) \<noteq> None
     \<and> callsMade (Run sampleCaseTable plainQuote testTool emptyWorld (Inr ?r1)) = []
     \<and> worldAfter (Run sampleCaseTable plainQuote testTool emptyWorld (Inr ?r1)) = emptyWorld"
    by blast
  from t [of "Inr ?r2" "''''" ?r2] h2
  have b: "callsMade (Run sampleCaseTable plainQuote testTool emptyWorld (Inr ?r2)) = []"
    by blast
  from d a b show ?thesis by (simp only: request_def simp_thms)
qed

section \<open>Properties of the descriptor\<close>

lemma foldl_append_lines: "foldl (\<lambda>base m. base @ f m) a ms = a @ concat (map f ms)"
  by (induction ms arbitrary: a) simp_all

lemma enumItems_map: "enumItems quote ms = map (\<lambda>m. quote (ID m)) ms"
proof -
  have "foldl (\<lambda>items m. items @ [quote (ID m)]) a ms = a @ map (\<lambda>m. quote (ID m)) ms" for a
    by (induction ms arbitrary: a) simp_all
  then show ?thesis by (simp add: enumItems_def)
qed

lemma schema_without_models: \<open>\<not> Contains (schema_head @ schema_tail) ''"model"''\<close>
  by code_simp

lemma description_without_models: "\<not> Contains description_base ''Available models''"
  by code_simp

lemma modelProp_head_split:
  \<open>\<exists>a b. modelProp_head = a @ ''"model"'' @ b\<close>
proof -
  have \<open>modelProp_head = '',\<newline>    '' @ ''"model"'' @ drop 13 modelProp_head\<close>
    by code_simp
  then show ?thesis by blast
qed

lemma models_header_split: "\<exists>b. models_header = ''\<newline>\<newline>'' @ ''Available models'' @ b"
proof -
  have "models_header = ''\<newline>\<newline>'' @ ''Available models'' @ drop 18 models_header"
    by code_simp
  then show ?thesis by blast
qed

lemma subagentInputSchema_nonempty:
  "AvailableModels s \<noteq> [] \<Longrightarrow>
   subagentInputSchema quote s =
     schema_head @ modelProp_head @ Join (map (\<lambda>m. quote (ID m)) (AvailableModels s)) '', ''
     @ modelProp_tail @ schema_tail"
  by (simp add: subagentInputSchema_def modelProp_def enumItems_map)

lemma subagentDescription_nonempty:
  "AvailableModels s \<noteq> [] \<Longrightarrow>
   subagentDescription s =
     description_base @ models_header @ concat (map model_line (AvailableModels s))"
  by (simp add: subagentDescription_def foldl_append_lines)

lemma subagentInputSchema_empty:
  "AvailableModels s = [] \<Longrightarrow> subagentInputSchema quote s = schema_head @ schema_tail"
  by (simp add: subagentInputSchema_def modelProp_def)

lemma subagentDescription_empty:
  "AvailableModels s = [] \<Longrightarrow> subagentDescription s = description_base"
  by (simp add: subagentDescription_def)

lemma schema_has_model_iff:
  \<open>Contains (subagentInputSchema quote s) ''"model"'' \<longleftrightarrow> AvailableModels s \<noteq> []\<close>
proof (cases "AvailableModels s = []")
  case True
  then show ?thesis
    using schema_without_models by (simp add: subagentInputSchema_empty)
next
  case False
  obtain a b where ab: \<open>modelProp_head = a @ ''"model"'' @ b\<close>
    using modelProp_head_split by blast
  have \<open>sublist ''"model"'' ((schema_head @ a) @ ''"model"'' @
      (b @ Join (map (\<lambda>m. quote (ID m)) (AvailableModels s)) '', '' @ modelProp_tail
         @ schema_tail))\<close>
    by (rule sublist_appendI)
  then have \<open>sublist ''"model"'' (subagentInputSchema quote s)\<close>
    by (simp only: subagentInputSchema_nonempty [OF False] ab append_assoc)
  with False show ?thesis by (simp only: Contains_iff_sublist simp_thms)
qed

lemma description_has_models_iff:
  "Contains (subagentDescription s) ''Available models'' \<longleftrightarrow> AvailableModels s \<noteq> []"
proof (cases "AvailableModels s = []")
  case True
  then show ?thesis
    using description_without_models by (simp add: subagentDescription_empty)
next
  case False
  obtain b where b: "models_header = ''\<newline>\<newline>'' @ ''Available models'' @ b"
    using models_header_split by blast
  have "sublist ''Available models'' ((description_base @ ''\<newline>\<newline>'') @ ''Available models'' @
      (b @ concat (map model_line (AvailableModels s))))"
    by (rule sublist_appendI)
  then have "sublist ''Available models'' (subagentDescription s)"
    by (simp only: subagentDescription_nonempty [OF False] b append_assoc)
  with False show ?thesis by (simp only: Contains_iff_sublist simp_thms)
qed

text \<open>
  Claim C9. For every registry (\<open>AvailableModels\<close>): the generated schema contains a
  \<open>"model"\<close> property if and only if the generated description contains the model list
  (its header \<open>Available models\<close>), if and only if the registry is non-empty. With an
  empty registry the schema is the fixed text without a model field and the
  description is the fixed preamble; with a non-empty registry the enum of the model
  field is the list of the quoted registry ids, in registry order, and the description
  ends with one line for each model.
\<close>

theorem descriptor_consistent:
  \<open>(Contains (subagentInputSchema quote s) ''"model"'' \<longleftrightarrow> AvailableModels s \<noteq> [])
   \<and> (Contains (subagentDescription s) ''Available models'' \<longleftrightarrow> AvailableModels s \<noteq> [])
   \<and> (AvailableModels s = [] \<longrightarrow>
        subagentInputSchema quote s = schema_head @ schema_tail
        \<and> subagentDescription s = description_base)
   \<and> (AvailableModels s \<noteq> [] \<longrightarrow>
        subagentInputSchema quote s =
          schema_head @ modelProp_head
          @ Join (map (\<lambda>m. quote (ID m)) (AvailableModels s)) '', ''
          @ modelProp_tail @ schema_tail
        \<and> subagentDescription s =
          description_base @ models_header @ concat (map model_line (AvailableModels s)))\<close>
  by (simp add: schema_has_model_iff description_has_models_iff subagentInputSchema_empty
      subagentDescription_empty subagentInputSchema_nonempty subagentDescription_nonempty)

text \<open>
  A registry as in \<open>TestSubagentTool_ModelOverride\<close> and the empty registry of
  \<open>TestSubagentTool_NoModels\<close>.
\<close>

theorem descriptor_consistent_witness:
  \<open>Contains (subagentInputSchema plainQuote testTool) ''"model"''
   \<and> Contains (subagentDescription testTool) ''Available models''
   \<and> subagentInputSchema plainQuote testTool =
        schema_head @ modelProp_head @ ''"sonnet", "haiku"'' @ modelProp_tail @ schema_tail
   \<and> subagentDescription testTool =
        description_base @ models_header @ ''\<newline>- sonnet'' @ ''\<newline>- haiku (Haiku 4.5)''
   \<and> \<not> Contains (subagentInputSchema plainQuote noModelsTool) ''"model"''
   \<and> \<not> Contains (subagentDescription noModelsTool) ''Available models''
   \<and> subagentInputSchema plainQuote noModelsTool = schema_head @ schema_tail
   \<and> subagentDescription noModelsTool = description_base\<close>
proof -
  have m: "AvailableModels testTool = [\<lparr>ID = ''sonnet'', DisplayName = ''''\<rparr>,
      \<lparr>ID = ''haiku'', DisplayName = ''Haiku 4.5''\<rparr>]"
    by (simp add: testTool_def)
  have n: "AvailableModels noModelsTool = []"
    by (simp add: noModelsTool_def)
  have j: \<open>Join (map (\<lambda>m. plainQuote (ID m)) (AvailableModels testTool)) '', ''
      = ''"sonnet", "haiku"''\<close>
    by (simp add: m plainQuote_def)
  have l: "concat (map model_line (AvailableModels testTool))
      = ''\<newline>- sonnet'' @ ''\<newline>- haiku (Haiku 4.5)''"
    by (simp add: m model_line_def)
  have ne: "AvailableModels testTool \<noteq> []"
    by (simp add: m)
  from descriptor_consistent [of plainQuote testTool] ne
  have a: \<open>Contains (subagentInputSchema plainQuote testTool) ''"model"''
   \<and> Contains (subagentDescription testTool) ''Available models''
   \<and> subagentInputSchema plainQuote testTool =
        schema_head @ modelProp_head
        @ Join (map (\<lambda>m. plainQuote (ID m)) (AvailableModels testTool)) '', ''
        @ modelProp_tail @ schema_tail
   \<and> subagentDescription testTool =
        description_base @ models_header @ concat (map model_line (AvailableModels testTool))\<close>
    by blast
  from descriptor_consistent [of plainQuote noModelsTool] n
  have b: \<open>\<not> Contains (subagentInputSchema plainQuote noModelsTool) ''"model"''
   \<and> \<not> Contains (subagentDescription noModelsTool) ''Available models''
   \<and> subagentInputSchema plainQuote noModelsTool = schema_head @ schema_tail
   \<and> subagentDescription noModelsTool = description_base\<close>
    by blast
  from a [unfolded j l] b show ?thesis by blast
qed

end
